theory Spec2Isabelle
  imports Main "HOL-Library.Word"
begin

section \<open>The contract EncryptedSpamFilter\<close>

text \<open>The source is \<^verbatim>\<open>contracts/SpamGuard_Z.sol\<close>.\<close>

subsection \<open>Solidity types\<close>

type_synonym address = "160 word"
type_synonym bytes32 = "256 word"
type_synonym uint256 = "256 word"
type_synonym uint32 = "32 word"
type_synonym bytes = "8 word list"

text \<open>
  \<open>euint32\<close> and \<open>externalEuint32\<close> are imported from the FHE library, where both are
  value types over \<open>bytes32\<close>: a handle carries no cleartext.
\<close>

type_synonym euint32 = "256 word"
type_synonym externalEuint32 = "256 word"

record EmailData =
  encryptedContent :: euint32
  publicMetadata :: uint256
  sender :: address
  timestamp :: uint256
  isSpam :: bool
  decryptedScore :: uint32
  isVerified :: bool

datatype event =
    EmailProcessed string address
  | SpamVerification string bool uint32

text \<open>
  The storage of the contract: the mapping \<open>emailRegistry\<close> (total, every slot starts
  as the all-zero struct), the array \<open>emailIds\<close>, and the log of emitted events.
\<close>

record contract_state =
  emailRegistry :: "string \<Rightarrow> EmailData"
  emailIds :: "string list"
  events :: "event list"

definition zeroEmailData :: EmailData where
  "zeroEmailData = \<lparr>encryptedContent = 0, publicMetadata = 0, sender = 0, timestamp = 0,
     isSpam = False, decryptedScore = 0, isVerified = False\<rparr>"

definition deployed :: contract_state where
  "deployed = \<lparr>emailRegistry = (\<lambda>_. zeroEmailData), emailIds = [], events = []\<rparr>"

text \<open>What a call sees of the transaction: \<open>msg.sender\<close> and \<open>block.timestamp\<close>.\<close>

record txn =
  msg_sender :: address
  block_timestamp :: uint256

subsection \<open>What the contract takes from outside\<close>

text \<open>
  The FHE library is imported, not part of the sources: its functions are parameters.
  A function that can revert returns \<open>None\<close> or \<open>False\<close> when it does.
  \<^item> \<open>fromExternal\<close>: \<open>FHE.fromExternal\<close>, which checks the input proof for the caller and
    gives the typed handle, or reverts;
  \<^item> \<open>isInitialized\<close>, \<open>toBytes32\<close>: the two pure readers of a handle;
  \<^item> \<open>allowThis\<close>, \<open>makePubliclyDecryptable\<close>: the two calls to the access-control list;
    \<open>False\<close> is a revert;
  \<^item> \<open>checkSignatures\<close>: \<open>FHE.checkSignatures\<close>, which returns nothing and reverts unless
    the proof authenticates the cleartexts for the handles given; \<open>False\<close> is that revert.

  The contract tests whether a record exists by \<open>bytes(emailRegistry[emailId].sender).length\<close>,
  where \<open>sender\<close> is an \<open>address\<close>. Solidity defines \<open>bytes(\<cdot>)\<close> for strings only, so the
  byte string of an address is the parameter \<open>addressBytes\<close>: every theorem below holds
  whatever it is, and the theorems that need a created record to be seen as existing say so.
\<close>

record env =
  addressBytes :: "address \<Rightarrow> bytes"
  fromExternal :: "address \<Rightarrow> externalEuint32 \<Rightarrow> bytes \<Rightarrow> euint32 option"
  isInitialized :: "euint32 \<Rightarrow> bool"
  toBytes32 :: "euint32 \<Rightarrow> bytes32"
  allowThis :: "euint32 \<Rightarrow> bool"
  makePubliclyDecryptable :: "euint32 \<Rightarrow> bool"
  checkSignatures :: "bytes32 list \<Rightarrow> bytes \<Rightarrow> bytes \<Rightarrow> bool"

subsection \<open>Reverts\<close>

text \<open>
  A call either returns the new state or reverts, and a revert leaves the storage as it
  was. The first four errors are the \<open>require\<close> messages of the contract; the others are
  reverts inside the library calls and inside \<open>abi.decode\<close>.
\<close>

datatype error =
    Email_already_processed
  | Invalid_encrypted_content
  | Email_does_not_exist
  | Email_already_verified
  | FHE_fromExternal_reverted
  | FHE_acl_reverted
  | FHE_checkSignatures_reverted
  | Abi_decode_reverted

fun revert_reason :: "error \<Rightarrow> string" where
  "revert_reason Email_already_processed = ''Email already processed''"
| "revert_reason Invalid_encrypted_content = ''Invalid encrypted content''"
| "revert_reason Email_does_not_exist = ''Email does not exist''"
| "revert_reason Email_already_verified = ''Email already verified''"
| "revert_reason _ = ''''"

subsection \<open>abi.decode(abiEncodedResult, (bool, uint32))\<close>

text \<open>
  Two 32-byte big-endian words. The decoder of Solidity 0.8 reverts when fewer than 64
  bytes are given, when the first word is neither 0 nor 1, and when the second does not
  fit 32 bits; bytes after the first 64 are ignored.
\<close>

definition be_nat :: "bytes \<Rightarrow> nat" where
  "be_nat bs = foldl (\<lambda>a b. a * 256 + unat b) 0 bs"

definition abi_decode_bool_uint32 :: "bytes \<Rightarrow> (bool \<times> uint32) option" where
  "abi_decode_bool_uint32 d =
     (if length d < 64 then None
      else let w0 = be_nat (take 32 d); w1 = be_nat (take 32 (drop 32 d))
           in if 1 < w0 then None
              else if 2 ^ 32 \<le> w1 then None
              else Some (w0 = 1, of_nat w1))"

subsection \<open>The functions of the contract\<close>

text \<open>
  \<open>processEmail\<close> calls \<open>FHE.fromExternal\<close> twice on the same arguments, once under the
  \<open>require\<close> and once in the struct it stores; the parameter is a function, so both calls
  give the handle \<open>h\<close>.
\<close>

definition processEmail ::
  "env \<Rightarrow> txn \<Rightarrow> contract_state \<Rightarrow> string \<Rightarrow> externalEuint32 \<Rightarrow> bytes \<Rightarrow> uint256
    \<Rightarrow> error + contract_state" where
  "processEmail e tx s emailId encContent contentProof pubMeta =
     (if \<not> length (addressBytes e (sender (emailRegistry s emailId))) = 0
      then Inl Email_already_processed
      else case fromExternal e (msg_sender tx) encContent contentProof of
        None \<Rightarrow> Inl FHE_fromExternal_reverted
      | Some h \<Rightarrow>
          if \<not> isInitialized e h then Inl Invalid_encrypted_content
          else
            let s1 = s\<lparr>emailRegistry := (emailRegistry s)(emailId :=
                        \<lparr>encryptedContent = h,
                         publicMetadata = pubMeta,
                         sender = msg_sender tx,
                         timestamp = block_timestamp tx,
                         isSpam = False,
                         decryptedScore = 0,
                         isVerified = False\<rparr>)\<rparr>
            in if \<not> allowThis e (encryptedContent (emailRegistry s1 emailId))
               then Inl FHE_acl_reverted
               else if \<not> makePubliclyDecryptable e (encryptedContent (emailRegistry s1 emailId))
               then Inl FHE_acl_reverted
               else Inr (s1\<lparr>emailIds := emailIds s1 @ [emailId],
                            events := events s1 @ [EmailProcessed emailId (msg_sender tx)]\<rparr>))"

definition verifySpamStatus ::
  "env \<Rightarrow> contract_state \<Rightarrow> string \<Rightarrow> bytes \<Rightarrow> bytes \<Rightarrow> error + contract_state" where
  "verifySpamStatus e s emailId abiEncodedResult verificationProof =
     (if \<not> 0 < length (addressBytes e (sender (emailRegistry s emailId)))
      then Inl Email_does_not_exist
      else if isVerified (emailRegistry s emailId) then Inl Email_already_verified
      else
        let cts = [toBytes32 e (encryptedContent (emailRegistry s emailId))]
        in if \<not> checkSignatures e cts abiEncodedResult verificationProof
           then Inl FHE_checkSignatures_reverted
           else case abi_decode_bool_uint32 abiEncodedResult of
             None \<Rightarrow> Inl Abi_decode_reverted
           | Some (spam, score) \<Rightarrow>
               Inr (s\<lparr>emailRegistry := (emailRegistry s)(emailId :=
                        (emailRegistry s emailId)\<lparr>isSpam := spam, decryptedScore := score,
                                                  isVerified := True\<rparr>),
                      events := events s @ [SpamVerification emailId spam score]\<rparr>))"

definition getEncryptedContent :: "env \<Rightarrow> contract_state \<Rightarrow> string \<Rightarrow> error + euint32" where
  "getEncryptedContent e s emailId =
     (if \<not> 0 < length (addressBytes e (sender (emailRegistry s emailId)))
      then Inl Email_does_not_exist
      else Inr (encryptedContent (emailRegistry s emailId)))"

definition getEmailData ::
  "env \<Rightarrow> contract_state \<Rightarrow> string
    \<Rightarrow> error + (uint256 \<times> address \<times> uint256 \<times> bool \<times> uint32 \<times> bool)" where
  "getEmailData e s emailId =
     (if \<not> 0 < length (addressBytes e (sender (emailRegistry s emailId)))
      then Inl Email_does_not_exist
      else let d = emailRegistry s emailId
           in Inr (publicMetadata d, sender d, timestamp d, isSpam d, decryptedScore d,
                   isVerified d))"

definition getAllEmailIds :: "contract_state \<Rightarrow> string list" where
  "getAllEmailIds s = emailIds s"

definition serviceStatus :: bool where
  "serviceStatus = True"

subsection \<open>Sequences of calls\<close>

text \<open>
  The two state-changing entry points as calls, a failed call leaving the state as it
  was, and the state after a list of calls made one after the other.
\<close>

datatype call =
    ProcessEmail txn string externalEuint32 bytes uint256
  | VerifySpamStatus string bytes bytes

fun step :: "env \<Rightarrow> contract_state \<Rightarrow> call \<Rightarrow> error + contract_state" where
  "step e s (ProcessEmail tx emailId enc pf m) = processEmail e tx s emailId enc pf m"
| "step e s (VerifySpamStatus emailId res pf) = verifySpamStatus e s emailId res pf"

definition exec :: "env \<Rightarrow> contract_state \<Rightarrow> call \<Rightarrow> contract_state" where
  "exec e s c = (case step e s c of Inl _ \<Rightarrow> s | Inr s' \<Rightarrow> s')"

fun run :: "env \<Rightarrow> contract_state \<Rightarrow> call list \<Rightarrow> contract_state" where
  "run e s [] = s"
| "run e s (c # cs) = run e (exec e s c) cs"

fun is_verify :: "call \<Rightarrow> bool" where
  "is_verify (VerifySpamStatus _ _ _) = True"
| "is_verify _ = False"

subsection \<open>The ids created by a list of calls\<close>

text \<open>The ids of the \<open>processEmail\<close> calls of a list that succeed, in the order of the calls.\<close>

fun created_ids :: "env \<Rightarrow> contract_state \<Rightarrow> call list \<Rightarrow> string list" where
  "created_ids e s [] = []"
| "created_ids e s (c # cs) =
     (case c of
        ProcessEmail tx i enc pf m \<Rightarrow> (case step e s c of Inl _ \<Rightarrow> [] | Inr _ \<Rightarrow> [i])
      | VerifySpamStatus i res pf \<Rightarrow> [])
     @ created_ids e (exec e s c) cs"

subsection \<open>What every call preserves\<close>

text \<open>
  Two facts hold in every state the contract reaches: a verified record is one the
  existence test sees, and a record that is not verified has the two disclosure fields
  at the values written at creation.
\<close>

definition inv :: "env \<Rightarrow> contract_state \<Rightarrow> bool" where
  "inv e s = (\<forall>i.
      (isVerified (emailRegistry s i) \<longrightarrow> 0 < length (addressBytes e (sender (emailRegistry s i))))
    \<and> (\<not> isVerified (emailRegistry s i) \<longrightarrow>
          \<not> isSpam (emailRegistry s i) \<and> decryptedScore (emailRegistry s i) = 0))"

section \<open>The client's disclosure workflow (frontend/web/src/App.tsx, decryptData)\<close>

text \<open>
  \<open>decryptData\<close> reads the record, returns the stored value when the record is already
  verified, and otherwise fetches the handle and hands it to the SDK's \<open>verifyDecryption\<close>
  with a callback that submits the proof to the contract. What it calls is a parameter:
  the contract object (a method either returns or throws an error whose \<open>message\<close> may be
  undefined) and the SDK hook. The result is the last transaction status that
  \<open>decryptData\<close> itself sets, if any, and the number it returns, \<open>None\<close> for \<open>null\<close>. The
  timers that clear the status and the reload of the list are left out.
\<close>

datatype status = Pending | Success | Error

record business_data =
  bd_isVerified :: bool
  bd_decryptedValue :: int

type_synonym thrown = "string option"

record 'h client =
  isConnected :: bool
  hasAddress :: bool
  hasContractReadOnly :: bool
  hasContractWithSigner :: bool
  getBusinessData :: "string \<Rightarrow> thrown + business_data"
  getEncryptedValue :: "string \<Rightarrow> thrown + 'h"
  contract_verifyDecryption :: "string \<Rightarrow> bytes \<Rightarrow> bytes \<Rightarrow> thrown + unit"
  verifyDecryption :: "'h list \<Rightarrow> (bytes \<Rightarrow> bytes \<Rightarrow> thrown + unit) \<Rightarrow> thrown + ('h \<Rightarrow> int)"

text \<open>\<open>String.prototype.includes\<close>.\<close>

fun str_includes :: "string \<Rightarrow> string \<Rightarrow> bool" where
  "str_includes [] n = (n = [])"
| "str_includes (c # cs) n = (take (length n) (c # cs) = n \<or> str_includes cs n)"

text \<open>The \<open>catch\<close> block: both branches return \<open>null\<close>.\<close>

definition decryptData_catch :: "thrown \<Rightarrow> (status \<times> string) option \<times> int option" where
  "decryptData_catch msg =
     (if (case msg of None \<Rightarrow> False | Some m \<Rightarrow> str_includes m ''Data already verified'')
      then (Some (Success, ''Data is already verified on-chain''), None)
      else (Some (Error, ''Decryption failed: '' @
              (case msg of None \<Rightarrow> ''Unknown error''
               | Some m \<Rightarrow> if m = [] then ''Unknown error'' else m)), None))"

definition decryptData :: "'h client \<Rightarrow> string \<Rightarrow> (status \<times> string) option \<times> int option" where
  "decryptData c businessId =
     (if \<not> isConnected c \<or> \<not> hasAddress c
      then (Some (Error, ''Please connect wallet first''), None)
      else if \<not> hasContractReadOnly c then (None, None)
      else case getBusinessData c businessId of
        Inl err \<Rightarrow> decryptData_catch err
      | Inr businessData \<Rightarrow>
          if bd_isVerified businessData
          then let storedValue = (if bd_decryptedValue businessData = 0 then 0
                                  else bd_decryptedValue businessData)
               in (Some (Success, ''Data already verified on-chain''), Some storedValue)
          else if \<not> hasContractWithSigner c then (None, None)
          else case getEncryptedValue c businessId of
            Inl err \<Rightarrow> decryptData_catch err
          | Inr encryptedValueHandle \<Rightarrow>
              (case verifyDecryption c [encryptedValueHandle]
                      (contract_verifyDecryption c businessId) of
                 Inl err \<Rightarrow> decryptData_catch err
               | Inr clearValues \<Rightarrow>
                   (Some (Success, ''Data decrypted and verified successfully!''),
                    Some (clearValues encryptedValueHandle))))"

section \<open>Concrete inputs\<close>

text \<open>
  A library to evaluate the contract on inputs: an address has no bytes when it is the
  zero default and twenty otherwise; an input proof is accepted when it is not empty and
  the handle comes back as it was given; a handle is initialised when it is not zero; a
  decryption proof is the low byte of each handle followed by the cleartexts it signs.
\<close>

definition sign :: "bytes32 list \<Rightarrow> bytes \<Rightarrow> bytes" where
  "sign cts clear = map ucast cts @ clear"

definition lib :: env where
  "lib = \<lparr>addressBytes = (\<lambda>a. if a = 0 then [] else replicate 20 0),
          fromExternal = (\<lambda>a h p. if p = [] then None else Some h),
          isInitialized = (\<lambda>h. h \<noteq> 0),
          toBytes32 = (\<lambda>h. h),
          allowThis = (\<lambda>_. True),
          makePubliclyDecryptable = (\<lambda>_. True),
          checkSignatures = (\<lambda>cts clear p. p = sign cts clear)\<rparr>"

definition alice :: txn where
  "alice = \<lparr>msg_sender = 10, block_timestamp = 1000\<rparr>"

definition bob :: txn where
  "bob = \<lparr>msg_sender = 11, block_timestamp = 2000\<rparr>"

text \<open>The encoding of a flag and a score below 256, as \<open>abi.encode\<close> gives it.\<close>

definition encode :: "bool \<Rightarrow> 8 word \<Rightarrow> bytes" where
  "encode b n = replicate 31 0 @ [if b then 1 else 0] @ replicate 31 0 @ [n]"

definition create1 :: call where
  "create1 = ProcessEmail alice ''email-1'' 5 [1] 73"

definition verify1 :: call where
  "verify1 = VerifySpamStatus ''email-1'' (encode True 73) (sign [5] (encode True 73))"

definition created1 :: contract_state where
  "created1 = exec lib deployed create1"

definition verified1 :: contract_state where
  "verified1 = exec lib created1 verify1"

text \<open>The same record verified with the flag false, and with the flag false and score 0.\<close>

definition verified1F :: contract_state where
  "verified1F = exec lib created1
     (VerifySpamStatus ''email-1'' (encode False 73) (sign [5] (encode False 73)))"

definition verified0 :: contract_state where
  "verified0 = exec lib created1
     (VerifySpamStatus ''email-1'' (encode False 0) (sign [5] (encode False 0)))"

text \<open>Two more records, created after the first.\<close>

definition create2 :: call where
  "create2 = ProcessEmail bob ''email-2'' 6 [1] 50"

definition create3 :: call where
  "create3 = ProcessEmail alice ''email-3'' 7 [1] 0"

definition created2 :: contract_state where
  "created2 = exec lib created1 create2"

definition created3 :: contract_state where
  "created3 = exec lib created2 create3"




text \<open>
  A client whose read finds the record verified with the score 73, and a client that
  retries: its read was made before the record was verified, and its proof, the valid one
  of \<open>verify1\<close>, reaches the contract in the state \<open>verified1\<close>; the SDK hook submits
  the proof through the callback and passes on what the callback throws.
\<close>

definition reader :: "bytes32 client" where
  "reader = \<lparr>isConnected = True, hasAddress = True, hasContractReadOnly = True,
     hasContractWithSigner = True,
     getBusinessData = (\<lambda>_. Inr \<lparr>bd_isVerified = True, bd_decryptedValue = 73\<rparr>),
     getEncryptedValue = (\<lambda>_. Inr 5),
     contract_verifyDecryption = (\<lambda>_ _ _. Inr ()),
     verifyDecryption = (\<lambda>hs submit. Inr (\<lambda>_. 73))\<rparr>"

definition retrier :: "bytes32 client" where
  "retrier = \<lparr>isConnected = True, hasAddress = True, hasContractReadOnly = True,
     hasContractWithSigner = True,
     getBusinessData = (\<lambda>_. Inr \<lparr>bd_isVerified = False, bd_decryptedValue = 0\<rparr>),
     getEncryptedValue = (\<lambda>_. Inr 5),
     contract_verifyDecryption = (\<lambda>i clear p.
        case verifySpamStatus lib verified1 i clear p of
          Inl err \<Rightarrow> Inl (Some (revert_reason err))
        | Inr _ \<Rightarrow> Inr ()),
     verifyDecryption = (\<lambda>hs submit.
        case submit (encode True 73) (sign hs (encode True 73)) of
          Inl err \<Rightarrow> Inl err
        | Inr _ \<Rightarrow> Inr (\<lambda>_. 73))\<rparr>"

section \<open>Properties\<close>

subsection \<open>Helper facts\<close>

lemma verifySpamStatus_Inr:
  assumes "verifySpamStatus e s emailId res pf = Inr s'"
  shows "\<exists>spam score.
           0 < length (addressBytes e (sender (emailRegistry s emailId)))
         \<and> \<not> isVerified (emailRegistry s emailId)
         \<and> checkSignatures e [toBytes32 e (encryptedContent (emailRegistry s emailId))] res pf
         \<and> abi_decode_bool_uint32 res = Some (spam, score)
         \<and> s' = s\<lparr>emailRegistry := (emailRegistry s)(emailId :=
                     (emailRegistry s emailId)\<lparr>isSpam := spam, decryptedScore := score,
                                               isVerified := True\<rparr>),
                   events := events s @ [SpamVerification emailId spam score]\<rparr>"
  using assms
  by (auto simp: verifySpamStatus_def Let_def split: if_splits option.splits)

lemma processEmail_Inr:
  assumes "processEmail e tx s emailId enc pf m = Inr s'"
  shows "\<exists>h. length (addressBytes e (sender (emailRegistry s emailId))) = 0
         \<and> fromExternal e (msg_sender tx) enc pf = Some h
         \<and> isInitialized e h
         \<and> s' = s\<lparr>emailRegistry := (emailRegistry s)(emailId :=
                     \<lparr>encryptedContent = h, publicMetadata = m, sender = msg_sender tx,
                      timestamp = block_timestamp tx, isSpam = False, decryptedScore = 0,
                      isVerified = False\<rparr>),
                   emailIds := emailIds s @ [emailId],
                   events := events s @ [EmailProcessed emailId (msg_sender tx)]\<rparr>"
  using assms
  by (auto simp: processEmail_def Let_def split: if_splits option.splits)

lemma be_nat_encode_flag: "be_nat (replicate 31 0 @ [b]) = unat b"
  by (simp add: be_nat_def foldl_conv_fold numeral_eq_Suc)

lemma abi_decode_encode:
  "abi_decode_bool_uint32 (encode b n) = Some (b, ucast n)"
proof -
  have t: "take 32 (encode b n) = replicate 31 0 @ [if b then 1 else 0]"
    by (simp add: encode_def)
  have d: "take 32 (drop 32 (encode b n)) = replicate 31 0 @ [n]"
    by (simp add: encode_def)
  have l: "\<not> length (encode b n) < 64"
    by (simp add: encode_def)
  have bound: "unat n < 2 ^ 32"
    using unsigned_less [of n, where ?'a = nat] by simp
  show ?thesis
    unfolding abi_decode_bool_uint32_def Let_def t d be_nat_encode_flag
    using l bound by (auto simp: not_le)
qed

lemma created1_eq:
  "created1 = \<lparr>emailRegistry = (\<lambda>_. zeroEmailData)(''email-1'' :=
        \<lparr>encryptedContent = 5, publicMetadata = 73, sender = 10, timestamp = 1000,
         isSpam = False, decryptedScore = 0, isVerified = False\<rparr>),
      emailIds = [''email-1''],
      events = [EmailProcessed ''email-1'' 10]\<rparr>"
  by (simp add: created1_def create1_def exec_def processEmail_def deployed_def lib_def
      alice_def zeroEmailData_def Let_def)

subsection \<open>The frame of a verification\<close>

text \<open>
  C10. A successful \<open>verifySpamStatus\<close> changes, in the storage, the fields \<open>isSpam\<close>,
  \<open>decryptedScore\<close> and \<open>isVerified\<close> of the record of \<open>emailId\<close> and nothing else:
  the record keeps its \<open>encryptedContent\<close>, \<open>publicMetadata\<close>, \<open>sender\<close> and
  \<open>timestamp\<close>, the array \<open>emailIds\<close> is the same, and every other record is the same.
\<close>

theorem verifySpamStatus_frame:
  assumes "verifySpamStatus e s emailId res pf = Inr s'"
  shows "encryptedContent (emailRegistry s' emailId) = encryptedContent (emailRegistry s emailId)
       \<and> publicMetadata (emailRegistry s' emailId) = publicMetadata (emailRegistry s emailId)
       \<and> sender (emailRegistry s' emailId) = sender (emailRegistry s emailId)
       \<and> timestamp (emailRegistry s' emailId) = timestamp (emailRegistry s emailId)
       \<and> emailIds s' = emailIds s
       \<and> (\<forall>other. other \<noteq> emailId \<longrightarrow> emailRegistry s' other = emailRegistry s other)
       \<and> emailRegistry s' emailId =
           (emailRegistry s emailId)\<lparr>isSpam := isSpam (emailRegistry s' emailId),
              decryptedScore := decryptedScore (emailRegistry s' emailId),
              isVerified := isVerified (emailRegistry s' emailId)\<rparr>"
  using verifySpamStatus_Inr [OF assms] by auto

lemma verify1_eq:
  "verifySpamStatus lib created1 ''email-1'' (encode True 73) (sign [5] (encode True 73))
     = Inr verified1"
  by (simp add: verified1_def verify1_def exec_def verifySpamStatus_def created1_eq lib_def
      abi_decode_encode)

lemma verified1_eq:
  "verified1 = \<lparr>emailRegistry = (\<lambda>_. zeroEmailData)(''email-1'' :=
        \<lparr>encryptedContent = 5, publicMetadata = 73, sender = 10, timestamp = 1000,
         isSpam = True, decryptedScore = 73, isVerified = True\<rparr>),
      emailIds = [''email-1''],
      events = [EmailProcessed ''email-1'' 10, SpamVerification ''email-1'' True 73]\<rparr>"
  by (simp add: verified1_def verify1_def exec_def verifySpamStatus_def created1_eq lib_def
      abi_decode_encode)

theorem verifySpamStatus_frame_witness:
  "verifySpamStatus lib created1 ''email-1'' (encode True 73) (sign [5] (encode True 73))
     = Inr verified1
   \<and> encryptedContent (emailRegistry verified1 ''email-1'') = 5
   \<and> publicMetadata (emailRegistry verified1 ''email-1'') = 73
   \<and> sender (emailRegistry verified1 ''email-1'') = 10
   \<and> timestamp (emailRegistry verified1 ''email-1'') = 1000
   \<and> emailIds verified1 = [''email-1'']
   \<and> emailRegistry verified1 ''email-2'' = emailRegistry created1 ''email-2''
   \<and> isVerified (emailRegistry verified1 ''email-1'')"
  using verifySpamStatus_frame [OF verify1_eq] verify1_eq
  by (simp add: verified1_eq created1_eq)

subsection \<open>What every call preserves: proofs\<close>

lemma inv_deployed: "inv e deployed"
  by (simp add: inv_def deployed_def zeroEmailData_def)

lemma exec_ProcessEmail:
  "exec e s (ProcessEmail tx i enc pf m) = s
   \<or> (\<exists>h. length (addressBytes e (sender (emailRegistry s i))) = 0
        \<and> fromExternal e (msg_sender tx) enc pf = Some h
        \<and> exec e s (ProcessEmail tx i enc pf m) =
            s\<lparr>emailRegistry := (emailRegistry s)(i :=
                 \<lparr>encryptedContent = h, publicMetadata = m, sender = msg_sender tx,
                  timestamp = block_timestamp tx, isSpam = False, decryptedScore = 0,
                  isVerified = False\<rparr>),
               emailIds := emailIds s @ [i],
               events := events s @ [EmailProcessed i (msg_sender tx)]\<rparr>)"
proof (cases "processEmail e tx s i enc pf m")
  case (Inl err)
  then show ?thesis by (simp add: exec_def)
next
  case (Inr s')
  from processEmail_Inr [OF Inr] Inr show ?thesis
    by (auto simp: exec_def)
qed

lemma exec_VerifySpamStatus:
  "exec e s (VerifySpamStatus i res pf) = s
   \<or> (\<exists>spam score.
          0 < length (addressBytes e (sender (emailRegistry s i)))
        \<and> \<not> isVerified (emailRegistry s i)
        \<and> abi_decode_bool_uint32 res = Some (spam, score)
        \<and> exec e s (VerifySpamStatus i res pf) =
            s\<lparr>emailRegistry := (emailRegistry s)(i :=
                 (emailRegistry s i)\<lparr>isSpam := spam, decryptedScore := score,
                                       isVerified := True\<rparr>),
               events := events s @ [SpamVerification i spam score]\<rparr>)"
proof (cases "verifySpamStatus e s i res pf")
  case (Inl err)
  then show ?thesis by (simp add: exec_def)
next
  case (Inr s')
  from verifySpamStatus_Inr [OF Inr] Inr show ?thesis
    by (auto simp: exec_def)
qed

lemma inv_exec: "inv e s \<Longrightarrow> inv e (exec e s c)"
proof (cases c)
  case (ProcessEmail tx i enc pf m)
  assume "inv e s"
  with exec_ProcessEmail [of e s tx i enc pf m] show ?thesis
    unfolding ProcessEmail by (auto simp: inv_def split: if_splits)
next
  case (VerifySpamStatus i res pf)
  assume "inv e s"
  with exec_VerifySpamStatus [of e s i res pf] show ?thesis
    unfolding VerifySpamStatus by (auto simp: inv_def split: if_splits)
qed

lemma inv_run: "inv e s \<Longrightarrow> inv e (run e s cs)"
  by (induction cs arbitrary: s) (simp_all add: inv_exec)

lemma inv_reached: "inv e (run e deployed cs)"
  by (rule inv_run [OF inv_deployed])

lemma run_append: "run e s (cs @ ds) = run e (run e s cs) ds"
  by (induction cs arbitrary: s) simp_all



text \<open>A verified record is never written again.\<close>

lemma verified_exec:
  assumes "inv e s" and "isVerified (emailRegistry s i)"
  shows "emailRegistry (exec e s c) i = emailRegistry s i"
proof -
  from assms have ex: "0 < length (addressBytes e (sender (emailRegistry s i)))"
    by (simp add: inv_def)
  show ?thesis
  proof (cases c)
    case (ProcessEmail tx j enc pf m)
    with exec_ProcessEmail [of e s tx j enc pf m] ex show ?thesis
      by (cases "j = i") auto
  next
    case (VerifySpamStatus j res pf)
    with exec_VerifySpamStatus [of e s j res pf] assms(2) show ?thesis
      by (cases "j = i") auto
  qed
qed

lemma verified_run:
  assumes "inv e s" and "isVerified (emailRegistry s i)"
  shows "emailRegistry (run e s cs) i = emailRegistry s i"
  using assms
proof (induction cs arbitrary: s)
  case Nil
  then show ?case by simp
next
  case (Cons c cs)
  have r: "emailRegistry (exec e s c) i = emailRegistry s i"
    by (rule verified_exec [OF Cons.prems])
  have "emailRegistry (run e (exec e s c) cs) i = emailRegistry (exec e s c) i"
    using Cons.IH [OF inv_exec [OF Cons.prems(1)]] r Cons.prems(2) by simp
  with r show ?case by simp
qed

subsection \<open>Concrete runs\<close>

lemma run_create1: "run lib deployed [create1] = created1"
  by (simp add: created1_def)

lemma run_verify1: "run lib deployed [create1, verify1] = verified1"
  by (simp add: created1_def verified1_def)

lemma verified1F_eq:
  "verified1F = \<lparr>emailRegistry = (\<lambda>_. zeroEmailData)(''email-1'' :=
        \<lparr>encryptedContent = 5, publicMetadata = 73, sender = 10, timestamp = 1000,
         isSpam = False, decryptedScore = 73, isVerified = True\<rparr>),
      emailIds = [''email-1''],
      events = [EmailProcessed ''email-1'' 10, SpamVerification ''email-1'' False 73]\<rparr>"
  by (simp add: verified1F_def exec_def verifySpamStatus_def created1_eq lib_def
      abi_decode_encode)

lemma verified0_eq:
  "verified0 = \<lparr>emailRegistry = (\<lambda>_. zeroEmailData)(''email-1'' :=
        \<lparr>encryptedContent = 5, publicMetadata = 73, sender = 10, timestamp = 1000,
         isSpam = False, decryptedScore = 0, isVerified = True\<rparr>),
      emailIds = [''email-1''],
      events = [EmailProcessed ''email-1'' 10, SpamVerification ''email-1'' False 0]\<rparr>"
  by (simp add: verified0_def exec_def verifySpamStatus_def created1_eq lib_def
      abi_decode_encode)

lemma verify1_again:
  "verifySpamStatus lib verified1 ''email-1'' res pf = Inl Email_already_verified"
  by (simp add: verifySpamStatus_def verified1_eq lib_def)

lemma sign_other_handle: "sign [7] clear \<noteq> sign [5] clear"
  by (simp add: sign_def)

lemma encode_flag_differs: "encode False n \<noteq> encode True n"
  by (simp add: encode_def)

subsection \<open>The verified flag\<close>

text \<open>
  C1. In every state the contract reaches, \<open>verifySpamStatus\<close> on a record whose
  \<open>isVerified\<close> is already true fails with "Email already verified", and whatever calls
  follow, the record stays as it is: the flag goes from false to true at most once. A
  call that succeeds found the flag false and leaves it true, with \<open>isSpam\<close> and
  \<open>decryptedScore\<close> set to the pair decoded from the one \<open>abiEncodedResult\<close>; a call that
  fails leaves the whole state as it was, so none of the three is written without the
  others.
\<close>

theorem verified_at_most_once:
  "(isVerified (emailRegistry (run e deployed cs) emailId) \<longrightarrow>
        verifySpamStatus e (run e deployed cs) emailId res pf = Inl Email_already_verified
      \<and> emailRegistry (run e deployed (cs @ later)) emailId
          = emailRegistry (run e deployed cs) emailId)
   \<and> (verifySpamStatus e s emailId res pf = Inr s' \<longrightarrow>
        \<not> isVerified (emailRegistry s emailId)
      \<and> isVerified (emailRegistry s' emailId)
      \<and> abi_decode_bool_uint32 res
          = Some (isSpam (emailRegistry s' emailId), decryptedScore (emailRegistry s' emailId)))
   \<and> (verifySpamStatus e t emailId res2 pf2 = Inl err \<longrightarrow>
        exec e t (VerifySpamStatus emailId res2 pf2) = t)"
proof (intro conjI impI)
  assume v: "isVerified (emailRegistry (run e deployed cs) emailId)"
  have "0 < length (addressBytes e (sender (emailRegistry (run e deployed cs) emailId)))"
    using inv_reached [of e cs] v by (simp add: inv_def)
  with v show "verifySpamStatus e (run e deployed cs) emailId res pf = Inl Email_already_verified"
    by (simp add: verifySpamStatus_def)
  show "emailRegistry (run e deployed (cs @ later)) emailId
          = emailRegistry (run e deployed cs) emailId"
    unfolding run_append by (rule verified_run [OF inv_reached v])
next
  assume ok: "verifySpamStatus e s emailId res pf = Inr s'"
  from verifySpamStatus_Inr [OF ok]
  show "\<not> isVerified (emailRegistry s emailId)"
    and "isVerified (emailRegistry s' emailId)"
    and "abi_decode_bool_uint32 res
          = Some (isSpam (emailRegistry s' emailId), decryptedScore (emailRegistry s' emailId))"
    by auto
next
  assume "verifySpamStatus e t emailId res2 pf2 = Inl err"
  then show "exec e t (VerifySpamStatus emailId res2 pf2) = t"
    by (simp add: exec_def)
qed

theorem verified_at_most_once_witness:
  "isVerified (emailRegistry (run lib deployed [create1, verify1]) ''email-1'')
   \<and> verifySpamStatus lib (run lib deployed [create1, verify1]) ''email-1''
        (encode True 73) (sign [5] (encode True 73)) = Inl Email_already_verified
   \<and> emailRegistry (run lib deployed ([create1, verify1] @ [verify1, create1])) ''email-1''
        = emailRegistry (run lib deployed [create1, verify1]) ''email-1''
   \<and> verifySpamStatus lib created1 ''email-1'' (encode True 73) (sign [5] (encode True 73))
        = Inr verified1
   \<and> \<not> isVerified (emailRegistry created1 ''email-1'')
   \<and> isVerified (emailRegistry verified1 ''email-1'')
   \<and> abi_decode_bool_uint32 (encode True 73) = Some (True, 73)
   \<and> verifySpamStatus lib verified1 ''email-1'' (encode True 73) (sign [5] (encode True 73))
        = Inl Email_already_verified
   \<and> exec lib verified1 verify1 = verified1"
proof -
  have v: "isVerified (emailRegistry (run lib deployed [create1, verify1]) ''email-1'')"
    unfolding run_verify1 by (simp add: verified1_eq)
  note inst = verified_at_most_once [where e = lib and cs = "[create1, verify1]"
      and emailId = "''email-1''" and res = "encode True 73"
      and pf = "sign [5] (encode True 73)" and later = "[verify1, create1]"
      and s = created1 and s' = verified1 and t = verified1 and ?res2.0 = "encode True 73"
      and ?pf2.0 = "sign [5] (encode True 73)" and err = Email_already_verified]
  from inst v verify1_eq verify1_again show ?thesis
    by (simp add: verify1_def created1_eq) (simp add: verified1_eq)
qed

subsection \<open>The handles a proof is checked against\<close>

text \<open>
  C2, as the contract has it. \<open>verifySpamStatus\<close> takes no handles from the caller: it
  builds the list of the one handle stored on the record and gives it, with
  \<open>abiEncodedResult\<close> and the proof, to \<open>FHE.checkSignatures\<close>. A call succeeds only if that
  check accepted the proof for exactly this list, so no cleartext is written without a
  proof for the stored handle; when the record exists and is not verified and the check
  rejects the proof, the call fails with the revert of \<open>FHE.checkSignatures\<close>. There is no
  separate error for a proof made for other handles.
\<close>

theorem proof_checked_against_stored_handle:
  "(verifySpamStatus e s emailId res pf = Inr s' \<longrightarrow>
        checkSignatures e [toBytes32 e (encryptedContent (emailRegistry s emailId))] res pf)
   \<and> (0 < length (addressBytes e (sender (emailRegistry t emailId)))
        \<and> \<not> isVerified (emailRegistry t emailId)
        \<and> \<not> checkSignatures e [toBytes32 e (encryptedContent (emailRegistry t emailId))] res2 pf2
      \<longrightarrow> verifySpamStatus e t emailId res2 pf2 = Inl FHE_checkSignatures_reverted)"
proof (intro conjI impI)
  assume "verifySpamStatus e s emailId res pf = Inr s'"
  from verifySpamStatus_Inr [OF this]
  show "checkSignatures e [toBytes32 e (encryptedContent (emailRegistry s emailId))] res pf"
    by auto
next
  assume "0 < length (addressBytes e (sender (emailRegistry t emailId)))
        \<and> \<not> isVerified (emailRegistry t emailId)
        \<and> \<not> checkSignatures e [toBytes32 e (encryptedContent (emailRegistry t emailId))] res2 pf2"
  then show "verifySpamStatus e t emailId res2 pf2 = Inl FHE_checkSignatures_reverted"
    by (simp add: verifySpamStatus_def)
qed

theorem proof_checked_against_stored_handle_witness:
  "verifySpamStatus lib created1 ''email-1'' (encode True 73) (sign [5] (encode True 73))
        = Inr verified1
   \<and> checkSignatures lib [toBytes32 lib (encryptedContent (emailRegistry created1 ''email-1''))]
        (encode True 73) (sign [5] (encode True 73))
   \<and> 0 < length (addressBytes lib (sender (emailRegistry created1 ''email-1'')))
   \<and> \<not> isVerified (emailRegistry created1 ''email-1'')
   \<and> \<not> checkSignatures lib [toBytes32 lib (encryptedContent (emailRegistry created1 ''email-1''))]
        (encode True 73) (sign [7] (encode True 73))
   \<and> verifySpamStatus lib created1 ''email-1'' (encode True 73) (sign [7] (encode True 73))
        = Inl FHE_checkSignatures_reverted"
proof -
  have a: "0 < length (addressBytes lib (sender (emailRegistry created1 ''email-1'')))"
    by (simp add: created1_eq lib_def)
  have b: "\<not> isVerified (emailRegistry created1 ''email-1'')"
    by (simp add: created1_eq)
  have c: "\<not> checkSignatures lib
      [toBytes32 lib (encryptedContent (emailRegistry created1 ''email-1''))]
      (encode True 73) (sign [7] (encode True 73))"
    using sign_other_handle [of "encode True 73"] by (simp add: created1_eq lib_def)
  note inst = proof_checked_against_stored_handle [where e = lib and s = created1
      and emailId = "''email-1''" and res = "encode True 73"
      and pf = "sign [5] (encode True 73)" and s' = verified1 and t = created1
      and ?res2.0 = "encode True 73" and ?pf2.0 = "sign [7] (encode True 73)"]
  from inst a b c verify1_eq show ?thesis by simp
qed

text \<open>
  The claim as written fails: on the record created with the handle 5, a proof made for
  the handle 7 and a proof for the handle 5 that signs other cleartexts are rejected with
  the same error.
\<close>

theorem handle_mismatch_has_no_error_of_its_own:
  "verifySpamStatus lib created1 ''email-1'' (encode True 73) (sign [7] (encode True 73))
      = Inl FHE_checkSignatures_reverted
   \<and> verifySpamStatus lib created1 ''email-1'' (encode True 73) (sign [5] (encode False 73))
      = Inl FHE_checkSignatures_reverted"
  using sign_other_handle [of "encode True 73"] encode_flag_differs [of 73]
  by (simp add: verifySpamStatus_def created1_eq lib_def) (simp add: sign_def)

subsection \<open>Creating an id twice\<close>

text \<open>
  Whatever bytes an address has, a record whose creator is the zero address is not
  recognised: if the zero address has bytes, no call creates anything in a fresh slot; if
  it has none, the record it creates passes for absent, to the readers and to the next
  \<open>processEmail\<close> alike.
\<close>

lemma nothing_created_when_zero_has_bytes:
  assumes "addressBytes e 0 \<noteq> []" and "sender (emailRegistry s emailId) = 0"
  shows "processEmail e tx s emailId enc pf m = Inl Email_already_processed"
  using assms by (simp add: processEmail_def)

lemma zero_creator_not_recognised:
  assumes "sender (emailRegistry s emailId) = 0" and "msg_sender tx = 0"
      and "processEmail e tx s emailId enc pf m = Inr s1"
  shows "processEmail e tx2 s1 emailId enc2 pf2 m2 \<noteq> Inl Email_already_processed
       \<and> getEncryptedContent e s1 emailId = Inl Email_does_not_exist
       \<and> getEmailData e s1 emailId = Inl Email_does_not_exist"
proof -
  from processEmail_Inr [OF assms(3)] obtain h where
    z: "length (addressBytes e (sender (emailRegistry s emailId))) = 0" and
    s1: "s1 = s\<lparr>emailRegistry := (emailRegistry s)(emailId :=
                  \<lparr>encryptedContent = h, publicMetadata = m, sender = msg_sender tx,
                   timestamp = block_timestamp tx, isSpam = False, decryptedScore = 0,
                   isVerified = False\<rparr>),
                emailIds := emailIds s @ [emailId],
                events := events s @ [EmailProcessed emailId (msg_sender tx)]\<rparr>"
    by blast
  from z assms(1,2) have "addressBytes e (sender (emailRegistry s1 emailId)) = []"
    by (simp add: s1)
  then show ?thesis
    by (auto simp: processEmail_def getEncryptedContent_def getEmailData_def Let_def
        split: option.splits if_splits)
qed


lemma create1_eq: "processEmail lib alice deployed ''email-1'' 5 [1] 73 = Inr created1"
  by (simp add: created1_def create1_def exec_def processEmail_def deployed_def lib_def
      alice_def zeroEmailData_def Let_def)







subsection \<open>A wrongly signed proof\<close>

text \<open>
  C4. On a record that exists and is not verified, \<open>verifySpamStatus\<close> with a proof that
  \<open>FHE.checkSignatures\<close> rejects fails with the revert of that check and leaves the whole
  state, and so the record, as it was: \<open>isVerified\<close> stays false and nothing is written to
  \<open>isSpam\<close> or \<open>decryptedScore\<close>. A following call for the same record with a proof that
  the check accepts, for cleartexts that decode, succeeds and writes the decoded pair.
\<close>

theorem wrong_signature_changes_nothing:
  assumes "0 < length (addressBytes e (sender (emailRegistry s emailId)))"
      and "\<not> isVerified (emailRegistry s emailId)"
      and "\<not> checkSignatures e [toBytes32 e (encryptedContent (emailRegistry s emailId))] res pf"
  shows "verifySpamStatus e s emailId res pf = Inl FHE_checkSignatures_reverted
       \<and> exec e s (VerifySpamStatus emailId res pf) = s
       \<and> (checkSignatures e [toBytes32 e (encryptedContent (emailRegistry s emailId))] res2 pf2
            \<and> abi_decode_bool_uint32 res2 = Some (spam, score)
          \<longrightarrow> verifySpamStatus e (exec e s (VerifySpamStatus emailId res pf)) emailId res2 pf2
                = Inr (s\<lparr>emailRegistry := (emailRegistry s)(emailId :=
                           (emailRegistry s emailId)\<lparr>isSpam := spam, decryptedScore := score,
                                                     isVerified := True\<rparr>),
                         events := events s @ [SpamVerification emailId spam score]\<rparr>))"
proof -
  have rej: "verifySpamStatus e s emailId res pf = Inl FHE_checkSignatures_reverted"
    using assms by (simp add: verifySpamStatus_def)
  then have same: "exec e s (VerifySpamStatus emailId res pf) = s"
    by (simp add: exec_def)
  show ?thesis
    unfolding same using rej assms(1,2) by (simp add: verifySpamStatus_def)
qed

theorem wrong_signature_changes_nothing_witness:
  "0 < length (addressBytes lib (sender (emailRegistry created1 ''email-1'')))
   \<and> \<not> isVerified (emailRegistry created1 ''email-1'')
   \<and> \<not> checkSignatures lib [toBytes32 lib (encryptedContent (emailRegistry created1 ''email-1''))]
        (encode True 73) (sign [7] (encode True 73))
   \<and> verifySpamStatus lib created1 ''email-1'' (encode True 73) (sign [7] (encode True 73))
        = Inl FHE_checkSignatures_reverted
   \<and> exec lib created1 (VerifySpamStatus ''email-1'' (encode True 73) (sign [7] (encode True 73)))
        = created1
   \<and> checkSignatures lib [toBytes32 lib (encryptedContent (emailRegistry created1 ''email-1''))]
        (encode True 73) (sign [5] (encode True 73))
   \<and> abi_decode_bool_uint32 (encode True 73) = Some (True, 73)
   \<and> verifySpamStatus lib
        (exec lib created1 (VerifySpamStatus ''email-1'' (encode True 73) (sign [7] (encode True 73))))
        ''email-1'' (encode True 73) (sign [5] (encode True 73))
        = Inr verified1"
proof -
  have a: "0 < length (addressBytes lib (sender (emailRegistry created1 ''email-1'')))"
    by (simp add: created1_eq lib_def)
  have b: "\<not> isVerified (emailRegistry created1 ''email-1'')"
    by (simp add: created1_eq)
  have c: "\<not> checkSignatures lib
      [toBytes32 lib (encryptedContent (emailRegistry created1 ''email-1''))]
      (encode True 73) (sign [7] (encode True 73))"
    using sign_other_handle [of "encode True 73"] by (simp add: created1_eq lib_def)
  have d: "checkSignatures lib
      [toBytes32 lib (encryptedContent (emailRegistry created1 ''email-1''))]
      (encode True 73) (sign [5] (encode True 73))"
    by (simp add: created1_eq lib_def)
  have f: "abi_decode_bool_uint32 (encode True 73) = Some (True, 73)"
    by (simp add: abi_decode_encode)
  note inst = wrong_signature_changes_nothing [OF a b c, where ?res2.0 = "encode True 73"
      and ?pf2.0 = "sign [5] (encode True 73)" and spam = True and score = 73]
  have same: "exec lib created1
      (VerifySpamStatus ''email-1'' (encode True 73) (sign [7] (encode True 73))) = created1"
    using inst by simp
  from inst a b c d f verify1_eq show ?thesis
    unfolding same by simp
qed

subsection \<open>Where the classification flag comes from\<close>

text \<open>
  C6, as the contract has it. The flag \<open>isSpam\<close> that a successful \<open>verifySpamStatus\<close>
  writes is the boolean decoded from the first word of \<open>abiEncodedResult\<close>, and the score
  is the number decoded from the second word of the same bytes: no predicate is applied
  to the score. The pair is written once: in every state the contract reaches, a verified
  record keeps its \<open>isSpam\<close> and \<open>decryptedScore\<close> whatever calls follow.
\<close>

theorem flag_is_decoded_beside_score:
  "(verifySpamStatus e s emailId res pf = Inr s' \<longrightarrow>
        abi_decode_bool_uint32 res
          = Some (isSpam (emailRegistry s' emailId), decryptedScore (emailRegistry s' emailId)))
   \<and> (isVerified (emailRegistry (run e deployed cs) emailId) \<longrightarrow>
        isSpam (emailRegistry (run e deployed (cs @ later)) emailId)
          = isSpam (emailRegistry (run e deployed cs) emailId)
      \<and> decryptedScore (emailRegistry (run e deployed (cs @ later)) emailId)
          = decryptedScore (emailRegistry (run e deployed cs) emailId))"
proof (intro conjI impI)
  assume "verifySpamStatus e s emailId res pf = Inr s'"
  from verifySpamStatus_Inr [OF this]
  show "abi_decode_bool_uint32 res
          = Some (isSpam (emailRegistry s' emailId), decryptedScore (emailRegistry s' emailId))"
    by auto
next
  assume v: "isVerified (emailRegistry (run e deployed cs) emailId)"
  have k: "emailRegistry (run e deployed (cs @ later)) emailId
            = emailRegistry (run e deployed cs) emailId"
    unfolding run_append by (rule verified_run [OF inv_reached v])
  show "isSpam (emailRegistry (run e deployed (cs @ later)) emailId)
          = isSpam (emailRegistry (run e deployed cs) emailId)"
    and "decryptedScore (emailRegistry (run e deployed (cs @ later)) emailId)
          = decryptedScore (emailRegistry (run e deployed cs) emailId)"
    by (simp_all add: k)
qed

theorem flag_is_decoded_beside_score_witness:
  "verifySpamStatus lib created1 ''email-1'' (encode True 73) (sign [5] (encode True 73))
        = Inr verified1
   \<and> abi_decode_bool_uint32 (encode True 73) = Some (True, 73)
   \<and> isSpam (emailRegistry verified1 ''email-1'')
   \<and> decryptedScore (emailRegistry verified1 ''email-1'') = 73
   \<and> isVerified (emailRegistry (run lib deployed [create1, verify1]) ''email-1'')
   \<and> isSpam (emailRegistry (run lib deployed ([create1, verify1] @ [verify1, create1])) ''email-1'')
   \<and> decryptedScore
        (emailRegistry (run lib deployed ([create1, verify1] @ [verify1, create1])) ''email-1'') = 73"
proof -
  have v: "isVerified (emailRegistry (run lib deployed [create1, verify1]) ''email-1'')"
    unfolding run_verify1 by (simp add: verified1_eq)
  have r: "emailRegistry (run lib deployed [create1, verify1]) ''email-1''
      = \<lparr>encryptedContent = 5, publicMetadata = 73, sender = 10, timestamp = 1000,
         isSpam = True, decryptedScore = 73, isVerified = True\<rparr>"
    unfolding run_verify1 by (simp add: verified1_eq)
  note inst = flag_is_decoded_beside_score [where e = lib and s = created1
      and emailId = "''email-1''" and res = "encode True 73"
      and pf = "sign [5] (encode True 73)" and s' = verified1
      and cs = "[create1, verify1]" and later = "[verify1, create1]"]
  from inst v verify1_eq show ?thesis
    unfolding r by (simp add: verified1_eq)
qed

text \<open>
  The claim as written fails: two proofs for the same record and the same score 73, one
  with the flag true and one with the flag false, are both accepted, and the flag written
  differs while the score is the same.
\<close>

theorem flag_not_a_function_of_score:
  "verifySpamStatus lib created1 ''email-1'' (encode True 73) (sign [5] (encode True 73))
      = Inr verified1
   \<and> verifySpamStatus lib created1 ''email-1'' (encode False 73) (sign [5] (encode False 73))
      = Inr verified1F
   \<and> decryptedScore (emailRegistry verified1 ''email-1'') = 73
   \<and> decryptedScore (emailRegistry verified1F ''email-1'') = 73
   \<and> isSpam (emailRegistry verified1 ''email-1'')
   \<and> \<not> isSpam (emailRegistry verified1F ''email-1'')"
proof -
  have "verifySpamStatus lib created1 ''email-1'' (encode False 73) (sign [5] (encode False 73))
      = Inr verified1F"
    by (simp add: verified1F_def exec_def verifySpamStatus_def created1_eq lib_def
        abi_decode_encode)
  with verify1_eq show ?thesis
    by (simp add: verified1_eq verified1F_eq)
qed

subsection \<open>The disclosure fields of a record that is not verified\<close>

text \<open>
  C8, as the contract has it. The struct has no optional field: \<open>processEmail\<close> writes
  \<open>isSpam = false\<close> and \<open>decryptedScore = 0\<close>, and in every state the contract reaches a
  record that is not verified has exactly these two values. \<open>getEmailData\<close> on such a
  record, when it exists, returns them beside \<open>isVerified = false\<close>: the reader tells a
  disclosed value from the default by the flag \<open>isVerified\<close> alone.
\<close>

theorem unverified_record_has_defaults:
  "\<not> isVerified (emailRegistry (run e deployed cs) emailId) \<longrightarrow>
       isSpam (emailRegistry (run e deployed cs) emailId) = False
     \<and> decryptedScore (emailRegistry (run e deployed cs) emailId) = 0
     \<and> (0 < length (addressBytes e (sender (emailRegistry (run e deployed cs) emailId))) \<longrightarrow>
          getEmailData e (run e deployed cs) emailId
            = Inr (publicMetadata (emailRegistry (run e deployed cs) emailId),
                   sender (emailRegistry (run e deployed cs) emailId),
                   timestamp (emailRegistry (run e deployed cs) emailId),
                   False, 0, False))"
proof (intro impI)
  assume nv: "\<not> isVerified (emailRegistry (run e deployed cs) emailId)"
  have d: "isSpam (emailRegistry (run e deployed cs) emailId) = False
         \<and> decryptedScore (emailRegistry (run e deployed cs) emailId) = 0"
    using inv_reached [of e cs] nv by (simp add: inv_def)
  with nv show "isSpam (emailRegistry (run e deployed cs) emailId) = False
     \<and> decryptedScore (emailRegistry (run e deployed cs) emailId) = 0
     \<and> (0 < length (addressBytes e (sender (emailRegistry (run e deployed cs) emailId))) \<longrightarrow>
          getEmailData e (run e deployed cs) emailId
            = Inr (publicMetadata (emailRegistry (run e deployed cs) emailId),
                   sender (emailRegistry (run e deployed cs) emailId),
                   timestamp (emailRegistry (run e deployed cs) emailId),
                   False, 0, False))"
    by (simp add: getEmailData_def Let_def)
qed

theorem unverified_record_has_defaults_witness:
  "\<not> isVerified (emailRegistry (run lib deployed [create1]) ''email-1'')
   \<and> isSpam (emailRegistry (run lib deployed [create1]) ''email-1'') = False
   \<and> decryptedScore (emailRegistry (run lib deployed [create1]) ''email-1'') = 0
   \<and> 0 < length (addressBytes lib (sender (emailRegistry (run lib deployed [create1]) ''email-1'')))
   \<and> getEmailData lib (run lib deployed [create1]) ''email-1''
        = Inr (73, 10, 1000, False, 0, False)"
proof -
  have r: "emailRegistry (run lib deployed [create1]) ''email-1''
      = \<lparr>encryptedContent = 5, publicMetadata = 73, sender = 10, timestamp = 1000,
         isSpam = False, decryptedScore = 0, isVerified = False\<rparr>"
    unfolding run_create1 by (simp add: created1_eq)
  have a: "0 < length (addressBytes lib
      (sender (emailRegistry (run lib deployed [create1]) ''email-1'')))"
    unfolding r by (simp add: lib_def)
  from unverified_record_has_defaults [where e = lib and cs = "[create1]"
      and emailId = "''email-1''"] a
  show ?thesis unfolding r by simp
qed

text \<open>
  The claim as written fails: the read of the record that is not verified returns the
  score 0 and the flag false, the very values the read returns after a disclosure of
  (false, 0).
\<close>

theorem unverified_read_returns_default_score:
  "getEmailData lib created1 ''email-1'' = Inr (73, 10, 1000, False, 0, False)
   \<and> getEmailData lib verified0 ''email-1'' = Inr (73, 10, 1000, False, 0, True)"
  by (simp add: getEmailData_def created1_eq verified0_eq lib_def)

subsection \<open>Create, then read\<close>




subsection \<open>The list of ids\<close>

lemma emailIds_exec:
  "emailIds (exec e s c) = emailIds s @ created_ids e s [c]"
proof (cases c)
  case (ProcessEmail tx i enc pf m)
  show ?thesis
  proof (cases "processEmail e tx s i enc pf m")
    case (Inl err)
    then show ?thesis by (simp add: ProcessEmail exec_def)
  next
    case (Inr s')
    from processEmail_Inr [OF Inr] Inr show ?thesis
      by (auto simp: ProcessEmail exec_def)
  qed
next
  case (VerifySpamStatus i res pf)
  with exec_VerifySpamStatus [of e s i res pf] show ?thesis by auto
qed

lemma created_ids_Cons:
  "created_ids e s (c # cs) = created_ids e s [c] @ created_ids e (exec e s c) cs"
  by simp

lemma emailIds_run: "emailIds (run e s cs) = emailIds s @ created_ids e s cs"
proof (induction cs arbitrary: s)
  case Nil
  show ?case by simp
next
  case (Cons c cs)
  have "emailIds (run e s (c # cs)) = emailIds (exec e s c) @ created_ids e (exec e s c) cs"
    using Cons.IH [of "exec e s c"] by simp
  also have "\<dots> = emailIds s @ created_ids e s [c] @ created_ids e (exec e s c) cs"
    by (simp add: emailIds_exec)
  also have "\<dots> = emailIds s @ created_ids e s (c # cs)"
    by (simp only: created_ids_Cons [of e s c cs])
  finally show ?case .
qed

lemma created_ids_verify_only: "\<forall>c\<in>set vs. is_verify c \<Longrightarrow> created_ids e s vs = []"
proof (induction vs arbitrary: s)
  case Nil
  show ?case by simp
next
  case (Cons v vs)
  then obtain i res pf where "v = VerifySpamStatus i res pf"
    by (cases v) auto
  with Cons show ?case by simp
qed

text \<open>
  C9. \<open>getAllEmailIds\<close> after a list of calls is the list before it followed by the ids of
  the \<open>processEmail\<close> calls that succeeded, in the order of the calls: ids are appended at
  the end and none is removed or moved. Calls of \<open>verifySpamStatus\<close> leave the list as it
  is. After three creations on the deployed contract and any verifications, the list is
  the three ids in the order of creation.
\<close>

theorem ids_in_creation_order:
  "getAllEmailIds (run e s cs) = getAllEmailIds s @ created_ids e s cs
   \<and> ((\<forall>c\<in>set vs. is_verify c) \<longrightarrow> getAllEmailIds (run e s vs) = getAllEmailIds s)
   \<and> (processEmail e tx1 deployed id1 enc1 pf1 m1 = Inr s1
        \<and> processEmail e tx2 s1 id2 enc2 pf2 m2 = Inr s2
        \<and> processEmail e tx3 s2 id3 enc3 pf3 m3 = Inr s3
        \<and> (\<forall>c\<in>set vs. is_verify c)
      \<longrightarrow> getAllEmailIds (run e s3 vs) = [id1, id2, id3])"
proof (intro conjI impI)
  show "getAllEmailIds (run e s cs) = getAllEmailIds s @ created_ids e s cs"
    by (simp add: getAllEmailIds_def emailIds_run)
next
  assume "\<forall>c\<in>set vs. is_verify c"
  then show "getAllEmailIds (run e s vs) = getAllEmailIds s"
    by (simp add: getAllEmailIds_def emailIds_run created_ids_verify_only)
next
  assume a: "processEmail e tx1 deployed id1 enc1 pf1 m1 = Inr s1
        \<and> processEmail e tx2 s1 id2 enc2 pf2 m2 = Inr s2
        \<and> processEmail e tx3 s2 id3 enc3 pf3 m3 = Inr s3
        \<and> (\<forall>c\<in>set vs. is_verify c)"
  from a processEmail_Inr [of e tx1 deployed id1 enc1 pf1 m1 s1]
  have i1: "emailIds s1 = [id1]" by (auto simp: deployed_def)
  from a processEmail_Inr [of e tx2 s1 id2 enc2 pf2 m2 s2]
  have i2: "emailIds s2 = emailIds s1 @ [id2]" by auto
  from a processEmail_Inr [of e tx3 s2 id3 enc3 pf3 m3 s3]
  have i3: "emailIds s3 = emailIds s2 @ [id3]" by auto
  from a have "emailIds (run e s3 vs) = emailIds s3"
    by (simp add: emailIds_run created_ids_verify_only)
  with i1 i2 i3 show "getAllEmailIds (run e s3 vs) = [id1, id2, id3]"
    by (simp add: getAllEmailIds_def)
qed

lemma created2_eq:
  "created2 = \<lparr>emailRegistry = (\<lambda>_. zeroEmailData)(''email-1'' :=
        \<lparr>encryptedContent = 5, publicMetadata = 73, sender = 10, timestamp = 1000,
         isSpam = False, decryptedScore = 0, isVerified = False\<rparr>,
       ''email-2'' :=
        \<lparr>encryptedContent = 6, publicMetadata = 50, sender = 11, timestamp = 2000,
         isSpam = False, decryptedScore = 0, isVerified = False\<rparr>),
      emailIds = [''email-1'', ''email-2''],
      events = [EmailProcessed ''email-1'' 10, EmailProcessed ''email-2'' 11]\<rparr>"
  by (simp add: created2_def create2_def exec_def processEmail_def created1_eq lib_def
      bob_def zeroEmailData_def Let_def)

lemma create2_eq: "processEmail lib bob created1 ''email-2'' 6 [1] 50 = Inr created2"
  by (simp add: created2_def create2_def exec_def processEmail_def created1_eq lib_def
      bob_def zeroEmailData_def Let_def)

lemma create3_eq: "processEmail lib alice created2 ''email-3'' 7 [1] 0 = Inr created3"
  by (simp add: created3_def create3_def exec_def processEmail_def created2_eq lib_def
      alice_def zeroEmailData_def Let_def)

theorem ids_in_creation_order_witness:
  "getAllEmailIds (run lib created1 [create2, verify1, create1])
      = getAllEmailIds created1 @ created_ids lib created1 [create2, verify1, create1]
   \<and> getAllEmailIds created1 = [''email-1'']
   \<and> is_verify verify1
   \<and> getAllEmailIds (run lib created1 [verify1]) = getAllEmailIds created1
   \<and> processEmail lib alice deployed ''email-1'' 5 [1] 73 = Inr created1
   \<and> processEmail lib bob created1 ''email-2'' 6 [1] 50 = Inr created2
   \<and> processEmail lib alice created2 ''email-3'' 7 [1] 0 = Inr created3
   \<and> getAllEmailIds (run lib created3 [verify1]) = [''email-1'', ''email-2'', ''email-3'']"
proof -
  have v: "\<forall>c\<in>set [verify1]. is_verify c"
    by (simp add: verify1_def)
  note inst = ids_in_creation_order [where e = lib and s = created1
      and cs = "[create2, verify1, create1]" and vs = "[verify1]"
      and ?tx1.0 = alice and ?id1.0 = "''email-1''" and ?enc1.0 = 5 and ?pf1.0 = "[1]"
      and ?m1.0 = 73 and ?s1.0 = created1
      and ?tx2.0 = bob and ?id2.0 = "''email-2''" and ?enc2.0 = 6 and ?pf2.0 = "[1]"
      and ?m2.0 = 50 and ?s2.0 = created2
      and ?tx3.0 = alice and ?id3.0 = "''email-3''" and ?enc3.0 = 7 and ?pf3.0 = "[1]"
      and ?m3.0 = 0 and ?s3.0 = created3]
  have one: "getAllEmailIds created1 = [''email-1'']"
    by (simp add: getAllEmailIds_def created1_eq)
  have isv: "is_verify verify1"
    by (simp add: verify1_def)
  from inst v create1_eq create2_eq create3_eq one isv show ?thesis
    by simp
qed

subsection \<open>Verifying a second time\<close>

text \<open>
  C5, as the code has it. After a successful \<open>verifySpamStatus\<close>, a second call for the
  same record, with the same proof or any other, is rejected by the contract with
  "Email already verified" and changes nothing: the pair committed by the first call, the
  one decoded from its \<open>abiEncodedResult\<close>, is what \<open>getEmailData\<close> returns. The client
  does not turn the rejection into a returned pair: \<open>decryptData\<close> reads the record first
  and, when it is already verified, reports success and returns the stored score without
  calling the contract; when a call it makes throws, its handler returns \<open>null\<close>.
\<close>

theorem second_verify_rejected_values_kept:
  "(verifySpamStatus e s emailId res pf = Inr s1 \<longrightarrow>
        verifySpamStatus e s1 emailId res2 pf2 = Inl Email_already_verified
      \<and> exec e s1 (VerifySpamStatus emailId res2 pf2) = s1
      \<and> (\<exists>spam score. abi_decode_bool_uint32 res = Some (spam, score)
            \<and> getEmailData e s1 emailId
                = Inr (publicMetadata (emailRegistry s emailId),
                       sender (emailRegistry s emailId),
                       timestamp (emailRegistry s emailId), spam, score, True)))
   \<and> (isConnected c \<and> hasAddress c \<and> hasContractReadOnly c
        \<and> getBusinessData c businessId = Inr bd \<and> bd_isVerified bd
      \<longrightarrow> decryptData c businessId
            = (Some (Success, ''Data already verified on-chain''), Some (bd_decryptedValue bd)))
   \<and> snd (decryptData_catch msg) = None"
proof (intro conjI impI)
  assume ok: "verifySpamStatus e s emailId res pf = Inr s1"
  from verifySpamStatus_Inr [OF ok] obtain spam score where
    ex: "0 < length (addressBytes e (sender (emailRegistry s emailId)))" and
    dec: "abi_decode_bool_uint32 res = Some (spam, score)" and
    s1: "s1 = s\<lparr>emailRegistry := (emailRegistry s)(emailId :=
                  (emailRegistry s emailId)\<lparr>isSpam := spam, decryptedScore := score,
                                            isVerified := True\<rparr>),
                events := events s @ [SpamVerification emailId spam score]\<rparr>"
    by blast
  show rej: "verifySpamStatus e s1 emailId res2 pf2 = Inl Email_already_verified"
    using ex by (simp add: verifySpamStatus_def s1)
  then show "exec e s1 (VerifySpamStatus emailId res2 pf2) = s1"
    by (simp add: exec_def)
  have "getEmailData e s1 emailId
          = Inr (publicMetadata (emailRegistry s emailId), sender (emailRegistry s emailId),
                 timestamp (emailRegistry s emailId), spam, score, True)"
    using ex by (simp add: getEmailData_def Let_def s1)
  with dec show "\<exists>spam score. abi_decode_bool_uint32 res = Some (spam, score)
            \<and> getEmailData e s1 emailId
                = Inr (publicMetadata (emailRegistry s emailId),
                       sender (emailRegistry s emailId),
                       timestamp (emailRegistry s emailId), spam, score, True)"
    by blast
next
  assume "isConnected c \<and> hasAddress c \<and> hasContractReadOnly c
        \<and> getBusinessData c businessId = Inr bd \<and> bd_isVerified bd"
  then show "decryptData c businessId
            = (Some (Success, ''Data already verified on-chain''), Some (bd_decryptedValue bd))"
    by (simp add: decryptData_def Let_def)
next
  show "snd (decryptData_catch msg) = None"
    by (simp add: decryptData_catch_def)
qed

theorem second_verify_rejected_values_kept_witness:
  "verifySpamStatus lib created1 ''email-1'' (encode True 73) (sign [5] (encode True 73))
        = Inr verified1
   \<and> verifySpamStatus lib verified1 ''email-1'' (encode True 73) (sign [5] (encode True 73))
        = Inl Email_already_verified
   \<and> exec lib verified1 verify1 = verified1
   \<and> abi_decode_bool_uint32 (encode True 73) = Some (True, 73)
   \<and> getEmailData lib verified1 ''email-1'' = Inr (73, 10, 1000, True, 73, True)
   \<and> isConnected reader \<and> hasAddress reader \<and> hasContractReadOnly reader
   \<and> getBusinessData reader ''email-1'' = Inr \<lparr>bd_isVerified = True, bd_decryptedValue = 73\<rparr>
   \<and> decryptData reader ''email-1''
        = (Some (Success, ''Data already verified on-chain''), Some 73)
   \<and> snd (decryptData_catch (Some ''Email already verified'')) = None"
proof -
  have r: "isConnected reader \<and> hasAddress reader \<and> hasContractReadOnly reader
      \<and> getBusinessData reader ''email-1'' = Inr \<lparr>bd_isVerified = True, bd_decryptedValue = 73\<rparr>"
    by (simp add: reader_def)
  have g: "getEmailData lib verified1 ''email-1'' = Inr (73, 10, 1000, True, 73, True)"
    by (simp add: getEmailData_def verified1_eq lib_def)
  note inst = second_verify_rejected_values_kept [where e = lib and s = created1
      and emailId = "''email-1''" and res = "encode True 73"
      and pf = "sign [5] (encode True 73)" and ?s1.0 = verified1
      and ?res2.0 = "encode True 73" and ?pf2.0 = "sign [5] (encode True 73)"
      and c = reader and businessId = "''email-1''"
      and bd = "\<lparr>bd_isVerified = True, bd_decryptedValue = 73\<rparr>"
      and msg = "Some ''Email already verified''"]
  from inst r g verify1_eq show ?thesis
    by (simp add: verify1_def abi_decode_encode)
qed

text \<open>
  The claim as written fails: the second call with the same valid proof is an error at
  the contract, and the client that retries with that proof gets \<open>null\<close>, not the pair
  that was committed.
\<close>

theorem second_verify_is_an_error:
  "verifySpamStatus lib verified1 ''email-1'' (encode True 73) (sign [5] (encode True 73))
      = Inl Email_already_verified
   \<and> snd (decryptData_catch (Some (revert_reason Email_already_verified))) = None
   \<and> snd (decryptData retrier ''email-1'') = None"
proof -
  have "decryptData retrier ''email-1''
      = decryptData_catch (Some (revert_reason Email_already_verified))"
    by (simp add: decryptData_def retrier_def verify1_again)
  with verify1_again show ?thesis
    by (simp add: decryptData_catch_def)
qed

text \<open>
  The handler looks for "Data already verified"; the reason the contract reverts with is
  "Email already verified", which does not contain it.
\<close>

lemma contract_reason_not_matched:
  "\<not> str_includes (revert_reason Email_already_verified) ''Data already verified''"
  by simp

end
